theory Spec2Isabelle
  imports Complex_Main "HOL-Library.Sublist" "HOL-Library.Log_Nat"
begin

section \<open>Strings\<close>

text \<open>
  A Python \<open>str\<close> is modelled by its UTF-8 encoding, one \<open>char\<close> per byte. The program
  never indexes or measures a string, it only concatenates, replaces and percent-encodes,
  and \<open>urllib.parse.quote\<close> works on the UTF-8 bytes of its argument anyway. Characters
  outside printable ASCII are written byte by byte.
\<close>

type_synonym pystr = string

definition NL :: char where
  "NL = CHR 0x0A"

definition rupee :: pystr where
  "rupee = [CHR 0xE2, CHR 0x82, CHR 0xB9]"

definition emoji_book :: pystr where
  "emoji_book = [CHR 0xF0, CHR 0x9F, CHR 0x93, CHR 0x98]"

definition emoji_money :: pystr where
  "emoji_money = [CHR 0xF0, CHR 0x9F, CHR 0x92, CHR 0xB0]"

definition emoji_clipboard :: pystr where
  "emoji_clipboard = [CHR 0xF0, CHR 0x9F, CHR 0x93, CHR 0x8B]"

definition emoji_crown :: pystr where
  "emoji_crown = [CHR 0xF0, CHR 0x9F, CHR 0x91, CHR 0x91]"

definition emoji_check :: pystr where
  "emoji_check = [CHR 0xE2, CHR 0x9C, CHR 0x85]"

definition emoji_camera :: pystr where
  "emoji_camera = [CHR 0xF0, CHR 0x9F, CHR 0x93, CHR 0xB8]"

definition emoji_left_arrow :: pystr where
  "emoji_left_arrow = [CHR 0xE2, CHR 0xAC, CHR 0x85, CHR 0xEF, CHR 0xB8, CHR 0x8F]"

definition emoji_star :: pystr where
  "emoji_star = [CHR 0xF0, CHR 0x9F, CHR 0x8C, CHR 0x9F]"

definition emoji_books :: pystr where
  "emoji_books = [CHR 0xF0, CHR 0x9F, CHR 0x93, CHR 0x9A]"

definition emoji_memo :: pystr where
  "emoji_memo = [CHR 0xF0, CHR 0x9F, CHR 0x93, CHR 0x9D]"

definition bullet :: pystr where
  "bullet = [CHR 0xE2, CHR 0x80, CHR 0xA2]"

text \<open>\<open>sep.join(parts)\<close>\<close>

fun join :: "pystr \<Rightarrow> pystr list \<Rightarrow> pystr" where
  "join sep [] = []"
| "join sep [x] = x"
| "join sep (x # y # ys) = x @ sep @ join sep (y # ys)"

text \<open>
  \<open>s.replace(old, new)\<close>: every non-overlapping occurrence of \<open>old\<close>, found from the left,
  is replaced. For an empty \<open>old\<close> Python puts \<open>new\<close> before every character and at the end.
\<close>

fun replace_from :: "pystr \<Rightarrow> pystr \<Rightarrow> nat \<Rightarrow> pystr \<Rightarrow> pystr" where
  "replace_from old new k [] = []"
| "replace_from old new (Suc k) (c # cs) = replace_from old new k cs"
| "replace_from old new 0 (c # cs) =
     (if prefix old (c # cs) then new @ replace_from old new (length old - 1) cs
      else c # replace_from old new 0 cs)"

definition str_replace :: "pystr \<Rightarrow> pystr \<Rightarrow> pystr \<Rightarrow> pystr" where
  "str_replace s old new =
     (if old = [] then new @ concat (map (\<lambda>c. c # new) s)
      else replace_from old new 0 s)"

subsection \<open>Percent-encoding: \<open>urllib.parse.quote\<close> and \<open>unquote\<close>\<close>

text \<open>
  \<open>quote(s)\<close> with the default \<open>safe='/'\<close>: the bytes of the UTF-8 encoding that are ASCII
  letters, digits or one of \<open>_.-~/\<close> stay, every other byte becomes \<open>%XX\<close> with two
  upper-case hexadecimal digits.
\<close>

definition always_safe :: "char \<Rightarrow> bool" where
  "always_safe c \<longleftrightarrow>
     c \<in> set ''ABCDEFGHIJKLMNOPQRSTUVWXYZabcdefghijklmnopqrstuvwxyz0123456789_.-~/''"

definition hexdigit :: "nat \<Rightarrow> char" where
  "hexdigit n = ''0123456789ABCDEF'' ! n"

definition quote_byte :: "char \<Rightarrow> pystr" where
  "quote_byte c =
     (if always_safe c then [c]
      else [CHR ''%'', hexdigit (of_char c div 16), hexdigit (of_char c mod 16)])"

definition quote :: "pystr \<Rightarrow> pystr" where
  "quote s = concat (map quote_byte s)"

text \<open>
  \<open>unquote\<close> (on the byte level, \<open>unquote_to_bytes\<close>): a \<open>%\<close> followed by two hexadecimal
  digits of either case is the byte they denote; any other \<open>%\<close> stays as it is.
\<close>

definition unhex :: "char \<Rightarrow> nat option" where
  "unhex c =
     (if c \<in> set ''0123456789'' then Some (of_char c - 48)
      else if c \<in> set ''ABCDEF'' then Some (of_char c - 55)
      else if c \<in> set ''abcdef'' then Some (of_char c - 87)
      else None)"

fun unquote :: "pystr \<Rightarrow> pystr" where
  "unquote (c # h1 # h2 # rest) =
     (if c = CHR ''%'' then
        (case (unhex h1, unhex h2) of
           (Some a, Some b) \<Rightarrow> char_of (16 * a + b) # unquote rest
         | _ \<Rightarrow> c # unquote (h1 # h2 # rest))
      else c # unquote (h1 # h2 # rest))"
| "unquote (c # cs) = c # unquote cs"
| "unquote [] = []"

section \<open>Numbers\<close>

subsection \<open>Integers as text\<close>

definition digit_char :: "nat \<Rightarrow> char" where
  "digit_char d = ''0123456789'' ! d"

fun nat_str :: "nat \<Rightarrow> pystr" where
  "nat_str n = (if n < 10 then [digit_char n] else nat_str (n div 10) @ [digit_char (n mod 10)])"

declare nat_str.simps [simp del]

definition int_str :: "int \<Rightarrow> pystr" where
  "int_str i = (if i < 0 then ''-'' @ nat_str (nat (- i)) else nat_str (nat i))"

definition fmt_02d :: "int \<Rightarrow> pystr" where
  "fmt_02d i =
     (if i < 0 then int_str i
      else if i < 10 then ''0'' @ int_str i
      else int_str i)"

subsection \<open>Floats\<close>

type_synonym pyfloat = rat

definition bexp :: "rat \<Rightarrow> int" where
  "bexp x =
     (let a = \<bar>x\<bar> in
      if 1 \<le> a then int (floorlog 2 (nat \<lfloor>a\<rfloor>)) - 1
      else
        let b = int (floorlog 2 (nat \<lfloor>1 / a\<rfloor>))
        in if 1 \<le> a * 2 powi (b - 1) then 1 - b else - b)"

definition round_half_even :: "rat \<Rightarrow> int" where
  "round_half_even x =
     (let f = \<lfloor>x\<rfloor>; d = x - of_int f in
      if d < 1 / 2 then f
      else if 1 / 2 < d then f + 1
      else if even f then f else f + 1)"

definition rnd53 :: "rat \<Rightarrow> pyfloat" where
  "rnd53 x =
     (if x = 0 then 0
      else let u = 2 powi (bexp x - 52) in of_int (round_half_even (x / u)) * u)"

definition float_of_int :: "int \<Rightarrow> pyfloat" where
  "float_of_int i = rnd53 (of_int i)"

definition fsub :: "pyfloat \<Rightarrow> pyfloat \<Rightarrow> pyfloat" where
  "fsub a b = rnd53 (a - b)"

definition fmul :: "pyfloat \<Rightarrow> pyfloat \<Rightarrow> pyfloat" where
  "fmul a b = rnd53 (a * b)"

definition py_int :: "pyfloat \<Rightarrow> int" where
  "py_int x = (if 0 \<le> x then \<lfloor>x\<rfloor> else \<lceil>x\<rceil>)"

definition py_round :: "pyfloat \<Rightarrow> int" where
  "py_round x = round_half_even x"

subsection \<open>\<open>repr\<close> of a float\<close>

text \<open>
  An f-string field \<open>{x}\<close> of a float is \<open>repr(x)\<close>: the shortest decimal digit string
  that converts back to \<open>x\<close>, in positional notation when the decimal point position
  \<open>decpt\<close> (where \<open>x = 0.d1d2... * 10 ^ decpt\<close>) satisfies \<open>-4 < decpt \<le> 16\<close> and in
  exponent notation otherwise.
\<close>

definition dec_exp :: "rat \<Rightarrow> int" where
  "dec_exp a =
     (if 1 \<le> a then int (floorlog 10 (nat \<lfloor>a\<rfloor>))
      else
        let j = int (floorlog 10 (nat \<lfloor>1 / a\<rfloor>))
        in if 1 \<le> a * 10 powi (j - 1) then 2 - j else 1 - j)"

definition digits_at :: "rat \<Rightarrow> int \<Rightarrow> nat \<Rightarrow> nat option" where
  "digits_at a decpt n =
     (let u = 10 powi (decpt - int n);
          s = a / u;
          lo = \<lfloor>s\<rfloor>;
          hi = lo + 1;
          lo_ok = (rnd53 (of_int lo * u) = a);
          hi_ok = (rnd53 (of_int hi * u) = a)
      in if lo_ok \<and> (\<not> hi_ok \<or> s - of_int lo \<le> of_int hi - s) then Some (nat lo)
         else if hi_ok then Some (nat hi)
         else None)"

fun shortest_digits :: "rat \<Rightarrow> int \<Rightarrow> nat \<Rightarrow> nat \<Rightarrow> nat \<times> nat" where
  "shortest_digits a decpt n 0 = (nat (round_half_even (a / 10 powi (decpt - int n))), n)"
| "shortest_digits a decpt n (Suc fuel) =
     (case digits_at a decpt n of
        Some d \<Rightarrow> (d, n)
      | None \<Rightarrow> shortest_digits a decpt (Suc n) fuel)"

definition strip_zeros :: "pystr \<Rightarrow> pystr" where
  "strip_zeros ds = rev (dropWhile (\<lambda>c. c = CHR ''0'') (rev ds))"

definition exp_str :: "int \<Rightarrow> pystr" where
  "exp_str e =
     (if e < 0 then ''-'' else ''+'') @
     (if \<bar>e\<bar> < 10 then ''0'' else []) @ int_str \<bar>e\<bar>"

definition float_str :: "pyfloat \<Rightarrow> pystr" where
  "float_str x =
     (if x = 0 then ''0.0''
      else
        let a = \<bar>x\<bar>;
            dp = dec_exp a;
            (d, n) = shortest_digits a dp 1 16;
            all_ds = nat_str d;
            decpt = dp + (int (length all_ds) - int n);
            ds = strip_zeros all_ds;
            k = length ds;
            body =
              (if decpt \<le> - 4 \<or> 16 < decpt then
                 take 1 ds @ (if 1 < k then ''.'' @ drop 1 ds else []) @ ''e'' @ exp_str (decpt - 1)
               else if decpt \<le> 0 then ''0.'' @ replicate (nat (- decpt)) (CHR ''0'') @ ds
               else if int k \<le> decpt then ds @ replicate (nat decpt - k) (CHR ''0'') @ ''.0''
               else take (nat decpt) ds @ ''.'' @ drop (nat decpt) ds)
        in (if x < 0 then ''-'' else []) @ body)"

section \<open>Catalog\<close>

text \<open>
  \<open>COURSE_DATA\<close> is a dict literal; Python dicts keep insertion order, so it is an
  association list with distinct keys. A course is the inner dict with its four keys.
\<close>

record course =
  name :: pystr
  price :: pyfloat
  description :: pystr
  features :: "pystr list"

type_synonym catalog = "(pystr \<times> course) list"

definition COURSE_DATA :: catalog where
  "COURSE_DATA =
     [(''course_a'',
       \<lparr>name = ''Ordinary Group'',
        price = 30,
        description = ''Get Leaked content, daily updates '' @ emoji_check,
        features = [''Basic content access'', ''Daily updates'']\<rparr>),
      (''course_b'',
       \<lparr>name = ''Standard Group'',
        price = 50,
        description = ''Get premium content, daily updates '' @ emoji_check,
        features = [''Premium content access'', ''Daily updates'', ''Priority support'']\<rparr>),
      (''course_c'',
       \<lparr>name = ''Premium Group '' @ emoji_crown,
        price = 100,
        description = ''Get unlimited premium content, daily updates '' @ emoji_check,
        features = [''Unlimited content access'', ''Daily updates'', ''24/7 support'',
                    ''Exclusive materials'']\<rparr>)]"

text \<open>\<open>d.get(key)\<close>\<close>

definition dict_get :: "catalog \<Rightarrow> pystr \<Rightarrow> course option" where
  "dict_get d k = map_of d k"

section \<open>Keyboards\<close>

datatype button_action = CallbackData pystr | Url pystr

datatype button = InlineKeyboardButton pystr button_action

datatype markup = InlineKeyboardMarkup "button list list"

text \<open>
  The price as both the catalog keyboard and the detail view print it:
  \<open>f"{int(p)}.{int(round((p - int(p)) * 100)):02d}"\<close>, in float arithmetic.
\<close>

definition price_2d :: "pyfloat \<Rightarrow> pystr" where
  "price_2d p =
     int_str (py_int p) @ ''.'' @
     fmt_02d (py_round (fmul (fsub p (float_of_int (py_int p))) (float_of_int 100)))"

definition course_button :: "pystr \<times> course \<Rightarrow> button list" where
  "course_button = (\<lambda>(course_id, c).
     [InlineKeyboardButton
        (name c @ '' ('' @ rupee @ price_2d (price c) @ '')'')
        (CallbackData (''select_course_'' @ course_id))])"

definition demo_button :: button where
  "demo_button = InlineKeyboardButton (emoji_camera @ '' Show Demo'') (Url ''https://t.me/+ukJYiqlkRLYzOTFl'')"

definition create_course_keyboard_in :: "catalog \<Rightarrow> markup" where
  "create_course_keyboard_in cat = InlineKeyboardMarkup (map course_button cat @ [[demo_button]])"

definition create_course_keyboard :: markup where
  "create_course_keyboard = create_course_keyboard_in COURSE_DATA"

text \<open>
  \<open>ADMIN_USERNAME\<close> is \<open>os.getenv("ADMIN_USERNAME")\<close>: \<open>None\<close> when the variable is not set,
  and an f-string prints \<open>None\<close> as the text \<open>None\<close>.
\<close>

definition fmt_opt :: "pystr option \<Rightarrow> pystr" where
  "fmt_opt v = (case v of None \<Rightarrow> ''None'' | Some s \<Rightarrow> s)"

definition message_text :: "course \<Rightarrow> pystr" where
  "message_text c =
     ''Hello Admin,%0A%0A'' @
     ''I'm interested in the following Group:%0A'' @
     emoji_book @ '' Group: '' @ quote (name c) @ ''%0A'' @
     emoji_money @ '' Price: '' @ rupee @ float_str (price c) @ ''%0A'' @
     emoji_clipboard @ '' Features: '' @ join ''|'' (map quote (features c)) @ ''%0A%0A'' @
     ''Please provide payment details.''"

definition deep_link :: "pystr option \<Rightarrow> course \<Rightarrow> pystr" where
  "deep_link admin c = ''https://t.me/'' @ fmt_opt admin @ ''?text='' @ message_text c"

definition create_course_detail_keyboard_in ::
  "catalog \<Rightarrow> pystr option \<Rightarrow> pystr \<Rightarrow> markup option" where
  "create_course_detail_keyboard_in cat admin course_id =
     (case dict_get cat course_id of
        None \<Rightarrow> None
      | Some c \<Rightarrow>
          Some (InlineKeyboardMarkup
            [[InlineKeyboardButton ''Contact Admin'' (Url (deep_link admin c))],
             [InlineKeyboardButton (emoji_left_arrow @ '' Back to Groups'')
                (CallbackData ''back_to_groups'')]]))"

definition create_course_detail_keyboard :: "pystr option \<Rightarrow> pystr \<Rightarrow> markup option" where
  "create_course_detail_keyboard = create_course_detail_keyboard_in COURSE_DATA"

section \<open>Transport\<close>

text \<open>
  Every awaited Bot API call either is accepted or raises \<open>TelegramError\<close>. The transport
  is a function of the calls made so far and the call being made, so that a call may fail
  once and the same call succeed later. Every call, accepted or not, is recorded in the
  trace together with its outcome. \<open>Answer None\<close> is \<open>query.answer()\<close> with no text.
\<close>

datatype exn = TelegramError pystr | AttributeError pystr | ValueError pystr

fun exn_str :: "exn \<Rightarrow> pystr" where
  "exn_str (TelegramError m) = m"
| "exn_str (AttributeError m) = m"
| "exn_str (ValueError m) = m"

datatype action =
    EditMessageText pystr "markup option" "pystr option"
  | ReplyText pystr "markup option" "pystr option"
  | Answer "pystr option"
  | SendMessage pystr pystr

datatype outcome = Accepted | Rejected pystr

type_synonym transport = "(action \<times> outcome) list \<Rightarrow> action \<Rightarrow> outcome"

datatype level = INFO | ERROR | CRITICAL

record selected_course =
  sel_id :: pystr
  sel_name :: pystr
  sel_price :: pyfloat
  sel_features :: "pystr list"

record world =
  trace :: "(action \<times> outcome) list"
  logged :: "(level \<times> pystr) list"
  user_data :: "pystr \<rightharpoonup> selected_course"

definition api_call :: "transport \<Rightarrow> action \<Rightarrow> world \<Rightarrow> (exn + unit) \<times> world" where
  "api_call T a w =
     (case T (trace w) a of
        Accepted \<Rightarrow> (Inr (), w\<lparr>trace := trace w @ [(a, Accepted)]\<rparr>)
      | Rejected m \<Rightarrow> (Inl (TelegramError m), w\<lparr>trace := trace w @ [(a, Rejected m)]\<rparr>))"

definition logger :: "level \<Rightarrow> pystr \<Rightarrow> world \<Rightarrow> world" where
  "logger l m w = w\<lparr>logged := logged w @ [(l, m)]\<rparr>"

section \<open>Updates\<close>

record user =
  first_name :: pystr
  last_name :: "pystr option"
  username :: "pystr option"

record callback_query =
  data :: pystr

record message =
  command :: "pystr option"

text \<open>
  \<open>command\<close> is the bot command the library reads off a message, if it is one.
  \<open>effective_message\<close> tells whether the library finds a message the update belongs to,
  \<open>update_str\<close> is the text Python prints for the update object.
\<close>

record update =
  callback_query :: "callback_query option"
  message :: "message option"
  effective_user :: "user option"
  effective_message :: bool
  update_str :: pystr

section \<open>Delivery: \<open>send_safe_message\<close>\<close>

text \<open>\<open>telegram.helpers.escape_markdown(text, version=2)\<close>: a backslash before each special character.\<close>

definition markdown_v2_special :: "char set" where
  "markdown_v2_special = set (CHR 0x5C # CHR 0x60 # ''_*[]()~>#+-=|{}.!'')"

definition escape_markdown :: "pystr \<Rightarrow> pystr" where
  "escape_markdown s = concat (map (\<lambda>c. if c \<in> markdown_v2_special then [CHR 0x5C, c] else [c]) s)"

definition truthy :: "pystr option \<Rightarrow> bool" where
  "truthy v = (case v of None \<Rightarrow> False | Some s \<Rightarrow> s \<noteq> [])"

text \<open>
  One attempt: \<open>edit_message_text\<close> on the callback query if the update has one, else
  \<open>reply_text\<close> on \<open>update.message\<close>, which is an \<open>AttributeError\<close> when there is no message.
\<close>

definition attempt ::
  "transport \<Rightarrow> update \<Rightarrow> pystr \<Rightarrow> markup option \<Rightarrow> pystr option \<Rightarrow> world \<Rightarrow> (exn + unit) \<times> world" where
  "attempt T u txt reply_markup pm w =
     (case callback_query u of
        Some q \<Rightarrow> api_call T (EditMessageText txt reply_markup pm) w
      | None \<Rightarrow>
          (case message u of
             Some m \<Rightarrow> api_call T (ReplyText txt reply_markup pm) w
           | None \<Rightarrow> (Inl (AttributeError ''reply_text''), w)))"

definition send_safe_message ::
  "transport \<Rightarrow> update \<Rightarrow> pystr \<Rightarrow> markup option \<Rightarrow> pystr option \<Rightarrow> world \<Rightarrow> (exn + unit) \<times> world" where
  "send_safe_message T u txt reply_markup parse_mode w =
     (let escaped_text = (if parse_mode = Some ''MarkdownV2'' then escape_markdown txt else txt)
      in case attempt T u escaped_text reply_markup (if truthy parse_mode then parse_mode else None) w of
           (Inr r, w1) \<Rightarrow> (Inr r, w1)
         | (Inl (AttributeError m), w1) \<Rightarrow> (Inl (AttributeError m), w1)
         | (Inl (ValueError m), w1) \<Rightarrow> (Inl (ValueError m), w1)
         | (Inl (TelegramError e), w1) \<Rightarrow>
             (case attempt T u txt reply_markup None (logger ERROR (''Error sending message: '' @ e) w1) of
                (Inr r, w2) \<Rightarrow> (Inr r, w2)
              | (Inl (AttributeError m), w2) \<Rightarrow> (Inl (AttributeError m), w2)
              | (Inl (ValueError m), w2) \<Rightarrow> (Inl (ValueError m), w2)
              | (Inl (TelegramError e2), w2) \<Rightarrow>
                  (let w3 = logger ERROR (''Fallback message failed: '' @ e2) w2
                   in case callback_query u of
                        Some q \<Rightarrow> api_call T (Answer (Some ''Sorry, an error occurred. Please try again.'')) w3
                      | None \<Rightarrow> (Inr (), w3))))"

section \<open>Handlers\<close>

definition welcome_text :: pystr where
  "welcome_text =
     emoji_star @ '' Welcome to our Premium Bot '' @ emoji_books @ [NL, NL] @
     ''Select a Group below to see its details:''"

definition start_command :: "transport \<Rightarrow> update \<Rightarrow> world \<Rightarrow> (exn + unit) \<times> world" where
  "start_command T u w = send_safe_message T u welcome_text (Some create_course_keyboard) None w"

definition menu_text :: pystr where
  "menu_text =
     emoji_star @ '' Welcome to our Premium Bot '' @ emoji_books @ [NL, NL] @
     ''Select a Group below to see its details:''"

definition show_courses_menu :: "transport \<Rightarrow> update \<Rightarrow> world \<Rightarrow> (exn + unit) \<times> world" where
  "show_courses_menu T u w = send_safe_message T u menu_text (Some create_course_keyboard) None w"

definition price_text :: "course \<Rightarrow> pystr" where
  "price_text c = rupee @ price_2d (price c)"

definition description_text :: "course \<Rightarrow> pystr" where
  "description_text c =
     emoji_book @ '' '' @ name c @ '' '' @ emoji_crown @ [NL, NL] @
     emoji_money @ '' Price: '' @ price_text c @ [NL, NL] @
     emoji_clipboard @ '' Features:'' @ [NL] @ bullet @ '' '' @
       join ([NL] @ bullet @ '' '') (features c) @ [NL, NL] @
     emoji_memo @ '' Description:'' @ [NL] @ description c"

text \<open>The body of the \<open>try\<close> block of \<open>select_course\<close>.\<close>

definition select_course_try ::
  "pystr option \<Rightarrow> transport \<Rightarrow> update \<Rightarrow> world \<Rightarrow> (exn + unit) \<times> world" where
  "select_course_try admin T u w =
     (case callback_query u of
        None \<Rightarrow> (Inl (AttributeError ''answer''), w)
      | Some query \<Rightarrow>
          (case api_call T (Answer None) w of
             (Inl e, w1) \<Rightarrow> (Inl e, w1)
           | (Inr r, w1) \<Rightarrow>
               (let course_id = str_replace (data query) ''select_course_'' [] in
                case dict_get COURSE_DATA course_id of
                  None \<Rightarrow> send_safe_message T u ''Error: Group information not found.'' None None w1
                | Some c \<Rightarrow>
                    (let w2 = w1\<lparr>user_data := (user_data w1)(''selected_course'' \<mapsto>
                                 \<lparr>sel_id = course_id, sel_name = name c,
                                  sel_price = price c, sel_features = features c\<rparr>)\<rparr>
                     in send_safe_message T u (description_text c)
                          (create_course_detail_keyboard admin course_id) None w2))))"

definition select_course ::
  "pystr option \<Rightarrow> transport \<Rightarrow> update \<Rightarrow> world \<Rightarrow> (exn + unit) \<times> world" where
  "select_course admin T u w =
     (case select_course_try admin T u w of
        (Inr r, w1) \<Rightarrow> (Inr r, w1)
      | (Inl e, w1) \<Rightarrow>
          send_safe_message T u ''Sorry, an error occurred while processing your request.'' None None
            (logger ERROR (''Error selecting Group: '' @ exn_str e) w1))"

definition error_handler :: "transport \<Rightarrow> update \<Rightarrow> exn \<Rightarrow> world \<Rightarrow> (exn + unit) \<times> world" where
  "error_handler T u err w =
     (let w1 = logger ERROR (''Update '' @ update_str u @ '' caused error '' @ exn_str err) w
      in if effective_message u
         then send_safe_message T u ''An error occurred. Please try again later.'' None None w1
         else (Inr (), w1))"

definition user_info :: "user \<Rightarrow> pystr" where
  "user_info usr =
     ''User: '' @ first_name usr @ '' '' @
     (if truthy (last_name usr) then fmt_opt (last_name usr) else []) @
     '' (@'' @ fmt_opt (username usr) @ '')''"

definition inquiry_text :: "user \<Rightarrow> course \<Rightarrow> pystr" where
  "inquiry_text usr c =
     ''New course inquiry from '' @ user_info usr @ '':'' @ [NL, NL] @
     emoji_book @ '' Group: '' @ name c @ [NL] @
     emoji_money @ '' Price: '' @ rupee @ float_str (price c) @ [NL] @
     emoji_clipboard @ '' Features: '' @ join '', '' (features c)"

definition contact_admin_try ::
  "pystr option \<Rightarrow> transport \<Rightarrow> update \<Rightarrow> world \<Rightarrow> (exn + unit) \<times> world" where
  "contact_admin_try admin T u w =
     (case callback_query u of
        None \<Rightarrow> (Inl (AttributeError ''answer''), w)
      | Some query \<Rightarrow>
          (case api_call T (Answer None) w of
             (Inl e, w1) \<Rightarrow> (Inl e, w1)
           | (Inr r, w1) \<Rightarrow>
               (let course_id = str_replace (data query) ''contact_admin_'' [] in
                case dict_get COURSE_DATA course_id of
                  None \<Rightarrow> send_safe_message T u ''Error: Group information not found.'' None None w1
                | Some c \<Rightarrow>
                    (case effective_user u of
                       None \<Rightarrow> (Inl (AttributeError ''first_name''), w1)
                     | Some usr \<Rightarrow>
                         (case api_call T (SendMessage (''@'' @ fmt_opt admin) (inquiry_text usr c)) w1 of
                            (Inl e, w2) \<Rightarrow> (Inl e, w2)
                          | (Inr r, w2) \<Rightarrow>
                              send_safe_message T u
                                ''Your request has been sent to the admin. They will contact you shortly with payment details.''
                                None None w2)))))"

definition contact_admin ::
  "pystr option \<Rightarrow> transport \<Rightarrow> update \<Rightarrow> world \<Rightarrow> (exn + unit) \<times> world" where
  "contact_admin admin T u w =
     (case contact_admin_try admin T u w of
        (Inr r, w1) \<Rightarrow> (Inr r, w1)
      | (Inl e, w1) \<Rightarrow>
          send_safe_message T u ''Sorry, an error occurred while contacting the admin.'' None None
            (logger ERROR (''Error contacting admin: '' @ exn_str e) w1))"

section \<open>Dispatch: the handlers registered in \<open>main\<close>\<close>

text \<open>
  The handlers are tried in the order of registration and the first one whose filter
  accepts the update runs. A callback pattern is applied with \<open>re.match\<close>: \<open>^\<close> is the start
  of the payload, and \<open>$\<close> is its end or the position before one final newline.
\<close>

datatype handler = StartCommand | ShowCoursesMenu | SelectCourse | ContactAdmin

definition is_start_command :: "update \<Rightarrow> bool" where
  "is_start_command u = (case message u of None \<Rightarrow> False | Some m \<Rightarrow> command m = Some ''start'')"

definition matches_back_to_groups :: "pystr \<Rightarrow> bool" where
  "matches_back_to_groups d \<longleftrightarrow> d = ''back_to_groups'' \<or> d = ''back_to_groups'' @ [NL]"

definition dispatch :: "update \<Rightarrow> handler option" where
  "dispatch u =
     (if is_start_command u then Some StartCommand
      else case callback_query u of
             None \<Rightarrow> None
           | Some q \<Rightarrow>
               if matches_back_to_groups (data q) then Some ShowCoursesMenu
               else if prefix ''select_course_'' (data q) then Some SelectCourse
               else if prefix ''contact_admin_'' (data q) then Some ContactAdmin
               else None)"

fun run_handler ::
  "handler \<Rightarrow> pystr option \<Rightarrow> transport \<Rightarrow> update \<Rightarrow> world \<Rightarrow> (exn + unit) \<times> world" where
  "run_handler StartCommand admin T u w = start_command T u w"
| "run_handler ShowCoursesMenu admin T u w = show_courses_menu T u w"
| "run_handler SelectCourse admin T u w = select_course admin T u w"
| "run_handler ContactAdmin admin T u w = contact_admin admin T u w"

text \<open>
  One update: an exception that leaves the handler goes to \<open>error_handler\<close>; one that
  leaves \<open>error_handler\<close> is dropped by the library.
\<close>

definition process_update :: "pystr option \<Rightarrow> transport \<Rightarrow> update \<Rightarrow> world \<Rightarrow> world" where
  "process_update admin T u w =
     (case dispatch u of
        None \<Rightarrow> w
      | Some h \<Rightarrow>
          (case run_handler h admin T u w of
             (Inr r, w1) \<Rightarrow> w1
           | (Inl e, w1) \<Rightarrow> snd (error_handler T u e w1)))"

section \<open>Start-up\<close>

type_synonym environ = "pystr \<rightharpoonup> pystr"

record config =
  TELEGRAM_BOT_TOKEN :: pystr
  ADMIN_USERNAME :: "pystr option"

text \<open>
  The module-level code: both variables are read with \<open>os.getenv\<close>, and only the token is
  tested (\<open>if not TELEGRAM_BOT_TOKEN\<close>, so an empty token counts as missing).
\<close>

definition load_config :: "environ \<Rightarrow> (exn + config) \<times> (level \<times> pystr) list" where
  "load_config env =
     (case env ''TELEGRAM_BOT_TOKEN'' of
        None \<Rightarrow>
          (Inl (ValueError ''TELEGRAM_BOT_TOKEN is required''),
           [(ERROR, ''TELEGRAM_BOT_TOKEN environment variable is not set.'')])
      | Some tok \<Rightarrow>
          if tok = [] then
            (Inl (ValueError ''TELEGRAM_BOT_TOKEN is required''),
             [(ERROR, ''TELEGRAM_BOT_TOKEN environment variable is not set.'')])
          else (Inr \<lparr>TELEGRAM_BOT_TOKEN = tok, ADMIN_USERNAME = env ''ADMIN_USERNAME''\<rparr>, []))"

datatype run = Aborted exn "(level \<times> pystr) list" | Polled world

text \<open>
  The process: the configuration is loaded, then \<open>main\<close> logs its start and polls. The
  updates are those of one user, whose \<open>user_data\<close> dict starts empty.
\<close>

definition program :: "environ \<Rightarrow> transport \<Rightarrow> update list \<Rightarrow> run" where
  "program env T us =
     (case load_config env of
        (Inl e, lg) \<Rightarrow> Aborted e lg
      | (Inr cfg, lg) \<Rightarrow>
          Polled (fold (process_update (ADMIN_USERNAME cfg) T) us
            \<lparr>trace = [], logged = lg @ [(INFO, ''Starting bot...'')], user_data = Map.empty\<rparr>))"



lemma unquote_safe: "c \<noteq> CHR ''%'' \<Longrightarrow> unquote (c # rest) = c # unquote rest"
  by (cases "c # rest" rule: unquote.cases) simp_all




section \<open>Price rendering\<close>

lemma price_2d_30: "price_2d 30 = ''30.00''"
  by code_simp

lemma price_2d_50: "price_2d 50 = ''50.00''"
  by code_simp

lemma price_2d_100: "price_2d 100 = ''100.00''"
  by code_simp

text \<open>
  C3. Every price of the catalog is printed as its integer part, a dot and two digits:
  \<open>30.00\<close>, \<open>50.00\<close> and \<open>100.00\<close>, both in the labels of the catalog keyboard and in the
  price line of the detail view.
\<close>

theorem catalog_prices_two_digits:
  "map (\<lambda>(course_id, c). price_2d (price c)) COURSE_DATA = [''30.00'', ''50.00'', ''100.00'']
   \<and> create_course_keyboard = InlineKeyboardMarkup
        [[InlineKeyboardButton (''Ordinary Group ('' @ rupee @ ''30.00)'')
            (CallbackData ''select_course_course_a'')],
         [InlineKeyboardButton (''Standard Group ('' @ rupee @ ''50.00)'')
            (CallbackData ''select_course_course_b'')],
         [InlineKeyboardButton (''Premium Group '' @ emoji_crown @ '' ('' @ rupee @ ''100.00)'')
            (CallbackData ''select_course_course_c'')],
         [demo_button]]
   \<and> map (\<lambda>(course_id, c). price_text c) COURSE_DATA =
        [rupee @ ''30.00'', rupee @ ''50.00'', rupee @ ''100.00'']"
  by (simp add: COURSE_DATA_def create_course_keyboard_def create_course_keyboard_in_def
      course_button_def price_text_def price_2d_30 price_2d_50 price_2d_100)

section \<open>Decoding the deep link\<close>

lemma unquote_plain_append:
  "CHR ''%'' \<notin> set s \<Longrightarrow> unquote (s @ rest) = s @ unquote rest"
  by (induction s) (auto simp: unquote_safe)

lemma unquote_plain: "CHR ''%'' \<notin> set s \<Longrightarrow> unquote s = s"
  using unquote_plain_append [of s "[]"] by simp




subsection \<open>The characters of a printed number\<close>








subsection \<open>The characters of an encoded field\<close>







subsection \<open>The round trip\<close>






end
